theory Spec2Isabelle
  imports Main "HOL-Library.Multiset"
begin

section \<open>Values of the host language\<close>

text \<open>
  A MongoDB ObjectId is determined by its 24 hexadecimal digits; the model keeps that
  string. \<open>ObjectId.equals\<close> compares two ids by value.
\<close>

type_synonym objectId = string

definition equals :: "objectId \<Rightarrow> objectId \<Rightarrow> bool" where
  "equals a b = (a = b)"

text \<open>
  The array \<open>idsFound\<close> of \<open>getFriendsOfFriends\<close> holds JavaScript values of two kinds:
  the code searches it for ObjectId objects and pushes strings into it.
  \<open>Array.prototype.indexOf\<close> compares with \<open>===\<close>: a string and an object are never
  equal, two strings are equal when they have the same characters. Two objects are
  \<open>===\<close> only when they are the same object, which the model over-approximates by
  equality of the ids (the case is never reached: see \<open>indexOf_strings\<close> below).
\<close>

datatype jsval = JObjectId objectId | JString string

fun strict_eq :: "jsval \<Rightarrow> jsval \<Rightarrow> bool" where
  "strict_eq (JString s) (JString t) = (s = t)"
| "strict_eq (JObjectId a) (JObjectId b) = (a = b)"
| "strict_eq _ _ = False"

fun indexOf :: "jsval list \<Rightarrow> jsval \<Rightarrow> int" where
  "indexOf [] v = -1"
| "indexOf (x # xs) v =
     (if strict_eq x v then 0
      else (let r = indexOf xs v in if r = -1 then -1 else r + 1))"

text \<open>\<open>Array.prototype.toString\<close> on an array of ObjectIds: the ids' digits, joined by commas.\<close>

fun array_toString :: "objectId list \<Rightarrow> string" where
  "array_toString [] = []"
| "array_toString [x] = x"
| "array_toString (x # y # ys) = x @ '','' @ array_toString (y # ys)"

text \<open>
  The values passed as \<open>err\<close>: an \<open>Error\<close> object with its message, a bare string (the older
  friendship module calls \<open>done('Request does not exist!')\<close>), the \<open>ReferenceError\<close> of reading
  an undeclared variable, and an error reported by the database driver.
\<close>

datatype jserr =
    Error string
  | ErrString string
  | ReferenceError string
  | MongoError string

text \<open>
  What a function with a callback \<open>done\<close> does: it calls \<open>done(err)\<close> or \<open>done(null, v)\<close>
  (\<open>Done\<close>), it calls \<open>done()\<close> with no argument (\<open>DoneEmpty\<close>), or an exception leaves the
  callback it runs in and \<open>done\<close> is never called (\<open>Thrown\<close>).
\<close>

datatype 'a outcome = Done "jserr + 'a" | DoneEmpty | Thrown jserr

section \<open>The Friendship collection\<close>

text \<open>
  The schema of \<open>src/lib/friendship.js\<close>: \<open>status\<close> is a String with default \<open>'Pending'\<close>,
  \<open>dateAccepted\<close> is optional. \<open>doc_id\<close> is the document's \<open>_id\<close>. Dates are milliseconds.
\<close>

record friendship =
  doc_id :: objectId
  requester :: objectId
  requested :: objectId
  status :: string
  dateSent :: int
  dateAccepted :: "int option"

text \<open>
  The collection in insertion order. When \<open>down\<close> is set, every operation of the driver
  calls back with that error and changes nothing.
\<close>

record db =
  docs :: "friendship list"
  down :: "string option"

text \<open>
  The operations of the mongoose model that the code calls. A query's conditions are a
  predicate on documents; \<open>findOne\<close> delivers the first match in insertion order.
  \<open>findOneAndUpdate\<close> updates the first match and passes the updated document to its
  callback.
\<close>

definition find_docs :: "db \<Rightarrow> (friendship \<Rightarrow> bool) \<Rightarrow> jserr + friendship list" where
  "find_docs s conditions =
     (case down s of
        Some m \<Rightarrow> Inl (MongoError m)
      | None \<Rightarrow> Inr (filter conditions (docs s)))"

definition findOne :: "db \<Rightarrow> (friendship \<Rightarrow> bool) \<Rightarrow> jserr + friendship option" where
  "findOne s conditions =
     (case down s of
        Some m \<Rightarrow> Inl (MongoError m)
      | None \<Rightarrow> Inr (find conditions (docs s)))"

fun update_first :: "(friendship \<Rightarrow> bool) \<Rightarrow> (friendship \<Rightarrow> friendship) \<Rightarrow>
    friendship list \<Rightarrow> friendship list" where
  "update_first conditions updates [] = []"
| "update_first conditions updates (d # ds) =
     (if conditions d then updates d # ds else d # update_first conditions updates ds)"

definition findOneAndUpdate :: "db \<Rightarrow> (friendship \<Rightarrow> bool) \<Rightarrow> (friendship \<Rightarrow> friendship) \<Rightarrow>
    (jserr + friendship option) \<times> db" where
  "findOneAndUpdate s conditions updates =
     (case down s of
        Some m \<Rightarrow> (Inl (MongoError m), s)
      | None \<Rightarrow>
          (case find conditions (docs s) of
             None \<Rightarrow> (Inr None, s)
           | Some d \<Rightarrow> (Inr (Some (updates d)),
                        s\<lparr>docs := update_first conditions updates (docs s)\<rparr>)))"

text \<open>
  \<open>new Friendship({...}).save(done)\<close>: the document is appended and passed to \<open>done\<close>. The
  collection's index on \<open>_id\<close> is unique: a document whose \<open>_id\<close> is stored already is
  refused.
\<close>

definition save :: "db \<Rightarrow> friendship \<Rightarrow> friendship outcome \<times> db" where
  "save s doc =
     (case down s of
        Some m \<Rightarrow> (Done (Inl (MongoError m)), s)
      | None \<Rightarrow>
          if doc_id doc \<in> set (map doc_id (docs s))
          then (Done (Inl (MongoError ''E11000 duplicate key error'')), s)
          else (Done (Inr doc), s\<lparr>docs := docs s @ [doc]\<rparr>))"

text \<open>\<open>request.remove(done)\<close>: the document with that \<open>_id\<close> is deleted and passed to \<open>done\<close>.\<close>

definition remove_doc :: "db \<Rightarrow> friendship \<Rightarrow> friendship outcome \<times> db" where
  "remove_doc s request =
     (case down s of
        Some m \<Rightarrow> (Done (Inl (MongoError m)), s)
      | None \<Rightarrow> (Done (Inr request),
                 s\<lparr>docs := filter (\<lambda>d. doc_id d \<noteq> doc_id request) (docs s)\<rparr>))"

text \<open>
  \<open>model.populate(friendship, paths, done)\<close> replaces the two ids of a friendship by the
  selected fields of their accounts; the model keeps the ids. Called with no document it
  calls \<open>done()\<close> at once.
\<close>

definition populate :: "db \<Rightarrow> friendship option \<Rightarrow> jserr + friendship option" where
  "populate s friendship =
     (case friendship of
        None \<Rightarrow> Inr None
      | Some f \<Rightarrow> (case down s of Some m \<Rightarrow> Inl (MongoError m) | None \<Rightarrow> Inr (Some f)))"

section \<open>Friend sets (\<open>src/lib/friendship.js\<close>)\<close>

text \<open>
  \<open>getFriends\<close>: one query for the Accepted friendships that name the account on either
  side; for each, in the order found, the side that is not the account is pushed.
  The function is the same in both friendship modules.
\<close>

definition getFriends :: "db \<Rightarrow> objectId \<Rightarrow> jserr + objectId list" where
  "getFriends s accountId =
     (case find_docs s (\<lambda>d. (requester d = accountId \<or> requested d = accountId)
                             \<and> status d = ''Accepted'') of
        Inl err \<Rightarrow> Inl err
      | Inr friendships \<Rightarrow>
          Inr (map (\<lambda>friendship.
                 if equals accountId (requester friendship) then requested friendship
                 else requester friendship) friendships))"

subsection \<open>Friends of friends\<close>

text \<open>
  The variables of \<open>getFriendsOfFriends\<close>, and \<open>calls\<close>: the invocations of \<open>done\<close> so far,
  \<open>Inl err\<close> for \<open>done(err)\<close> and \<open>Inr ids\<close> for \<open>done(null, ids)\<close>.
\<close>

record fof_state =
  idsFound :: "jsval list"
  friendsOfFriendsIds :: "objectId list"
  totalResults :: nat
  calls :: "(jserr + objectId list) list"

definition fof_init :: fof_state where
  "fof_init = \<lparr>idsFound = [], friendsOfFriendsIds = [], totalResults = 0, calls = []\<rparr>"

text \<open>
  The body of the inner \<open>forEach\<close>, for one friend of a friend. What is pushed into
  \<open>idsFound\<close> is \<open>friendsOfFriendIds.toString()\<close>, the string of the whole array.
\<close>

definition fof_visit :: "objectId \<Rightarrow> objectId list \<Rightarrow> fof_state \<Rightarrow> objectId \<Rightarrow> fof_state" where
  "fof_visit accountId friendsOfFriendIds st friendOfFriendId =
     (if indexOf (idsFound st) (JObjectId friendOfFriendId) = -1
         \<and> \<not> equals accountId friendOfFriendId
      then st\<lparr>idsFound := idsFound st @ [JString (array_toString friendsOfFriendIds)],
              friendsOfFriendsIds := friendsOfFriendsIds st @ [friendOfFriendId]\<rparr>
      else st)"

text \<open>The callback of one sub-query \<open>self.getFriends(friendId, ...)\<close>, given its result.\<close>

definition fof_callback :: "objectId \<Rightarrow> objectId list \<Rightarrow> fof_state \<Rightarrow>
    jserr + objectId list \<Rightarrow> fof_state" where
  "fof_callback accountId friendIds st res =
     (case res of
        Inl err \<Rightarrow> st\<lparr>calls := calls st @ [Inl err]\<rparr>
      | Inr friendsOfFriendIds \<Rightarrow>
          (let st1 = foldl (fof_visit accountId friendsOfFriendIds) st friendsOfFriendIds;
               st2 = st1\<lparr>totalResults := totalResults st1 + 1\<rparr>
           in if totalResults st2 = length friendIds
              then st2\<lparr>calls := calls st2 @ [Inr (friendsOfFriendsIds st2)]\<rparr>
              else st2))"

text \<open>
  The outer \<open>forEach\<close> starts one sub-query per friend; their callbacks run one at a
  time, in the order the sub-queries complete. \<open>fof_fanout\<close> runs the callbacks for the
  sub-queries of \<open>completed\<close>, in that order.
\<close>

definition fof_fanout :: "(objectId \<Rightarrow> jserr + objectId list) \<Rightarrow> objectId \<Rightarrow> objectId list \<Rightarrow>
    objectId list \<Rightarrow> fof_state" where
  "fof_fanout gf accountId friendIds completed =
     foldl (fof_callback accountId friendIds) fof_init (map gf completed)"

text \<open>
  \<open>getFriendsOfFriends\<close> over any \<open>getFriends\<close> (\<open>self.getFriends\<close> in the source). The
  scheduler \<open>sched\<close> gives the order in which the sub-queries of a list of friends
  complete: a permutation of that list, the list itself when they complete in the order
  they were started. The result is the list of calls of \<open>done\<close>.
\<close>

definition getFriendsOfFriends_with :: "(objectId \<Rightarrow> jserr + objectId list) \<Rightarrow>
    (objectId list \<Rightarrow> objectId list) \<Rightarrow> objectId \<Rightarrow> (jserr + objectId list) list" where
  "getFriendsOfFriends_with gf sched accountId =
     (case gf accountId of
        Inl err \<Rightarrow> [Inl err]
      | Inr friendIds \<Rightarrow>
          if length friendIds = 0 then [Inr []]
          else calls (fof_fanout gf accountId friendIds (sched friendIds)))"

definition getFriendsOfFriends :: "db \<Rightarrow> (objectId list \<Rightarrow> objectId list) \<Rightarrow> objectId \<Rightarrow>
    (jserr + objectId list) list" where
  "getFriendsOfFriends s sched accountId = getFriendsOfFriends_with (getFriends s) sched accountId"

section \<open>Relationship classification\<close>

text \<open>
  Modelled from the spec: the constants of the \<open>relationships\<close> module, which is not among
  the sources (the spec: values NotFriends, Friends, FriendsOfFriends).
\<close>

datatype relationship = NOT_FRIENDS | FRIENDS_OF_FRIENDS | FRIENDS

text \<open>
  The loop of \<open>areFriends\<close>: \<open>while (answer === false && i < friendIds.length)\<close>, over the
  friends from index \<open>i\<close> on.
\<close>

fun areFriends_loop :: "objectId \<Rightarrow> objectId list \<Rightarrow> bool \<Rightarrow> bool" where
  "areFriends_loop accountId2 [] answer = answer"
| "areFriends_loop accountId2 (friendId # rest) answer =
     (if answer = False
      then areFriends_loop accountId2 rest (if equals accountId2 friendId then True else answer)
      else answer)"

definition areFriends :: "db \<Rightarrow> objectId \<Rightarrow> objectId \<Rightarrow> jserr + bool" where
  "areFriends s accountId1 accountId2 =
     (case getFriends s accountId1 of
        Inl err \<Rightarrow> Inl err
      | Inr friendIds \<Rightarrow>
          Inr (if length friendIds \<noteq> 0 then areFriends_loop accountId2 friendIds False
               else False))"

text \<open>The two nested loops of \<open>areFriendsOfFriends\<close>: the inner one over the second account's friends.\<close>

fun mutual_inner :: "objectId \<Rightarrow> objectId list \<Rightarrow> bool \<Rightarrow> bool" where
  "mutual_inner friend1 [] answer = answer"
| "mutual_inner friend1 (friend2 # rest) answer =
     (if answer = False
      then mutual_inner friend1 rest (if equals friend1 friend2 then True else answer)
      else answer)"

fun mutual_outer :: "objectId list \<Rightarrow> objectId list \<Rightarrow> bool \<Rightarrow> bool" where
  "mutual_outer [] account2FriendIds answer = answer"
| "mutual_outer (friend1 # rest) account2FriendIds answer =
     (if answer = False
      then mutual_outer rest account2FriendIds (mutual_inner friend1 account2FriendIds answer)
      else answer)"

definition areFriendsOfFriends :: "db \<Rightarrow> objectId \<Rightarrow> objectId \<Rightarrow> jserr + bool" where
  "areFriendsOfFriends s accountId1 accountId2 =
     (case getFriends s accountId1 of
        Inl err \<Rightarrow> Inl err
      | Inr account1FriendIds \<Rightarrow>
          if length account1FriendIds > 0
          then (case getFriends s accountId2 of
                  Inl err \<Rightarrow> Inl err
                | Inr account2FriendIds \<Rightarrow>
                    if length account2FriendIds > 0
                    then Inr (mutual_outer account1FriendIds account2FriendIds False)
                    else Inr False)
          else Inr False)"

definition getRelationship :: "db \<Rightarrow> objectId \<Rightarrow> objectId \<Rightarrow> jserr + relationship" where
  "getRelationship s accountId1 accountId2 =
     (case areFriends s accountId1 accountId2 of
        Inl err \<Rightarrow> Inl err
      | Inr answer \<Rightarrow>
          if answer then Inr FRIENDS
          else (case areFriendsOfFriends s accountId1 accountId2 of
                  Inl err \<Rightarrow> Inl err
                | Inr answer2 \<Rightarrow>
                    if answer2 then Inr FRIENDS_OF_FRIENDS else Inr NOT_FRIENDS))"

text \<open>
  The older friendship module (\<open>src/unnamed/part_001\<close>) has the same three functions under
  the names \<open>isFriend\<close>, \<open>isFriendOfFriends\<close> and \<open>getRelationship\<close>, with the same loops.
\<close>

definition isFriend :: "db \<Rightarrow> objectId \<Rightarrow> objectId \<Rightarrow> jserr + bool" where
  "isFriend s accountId1 accountId2 =
     (case getFriends s accountId1 of
        Inl err \<Rightarrow> Inl err
      | Inr friendIds \<Rightarrow>
          Inr (if length friendIds \<noteq> 0 then areFriends_loop accountId2 friendIds False
               else False))"

definition isFriendOfFriends :: "db \<Rightarrow> objectId \<Rightarrow> objectId \<Rightarrow> jserr + bool" where
  "isFriendOfFriends s accountId1 accountId2 =
     (case getFriends s accountId1 of
        Inl err \<Rightarrow> Inl err
      | Inr account1FriendIds \<Rightarrow>
          if length account1FriendIds > 0
          then (case getFriends s accountId2 of
                  Inl err \<Rightarrow> Inl err
                | Inr account2FriendIds \<Rightarrow>
                    if length account2FriendIds > 0
                    then Inr (mutual_outer account1FriendIds account2FriendIds False)
                    else Inr False)
          else Inr False)"

definition getRelationship_part1 :: "db \<Rightarrow> objectId \<Rightarrow> objectId \<Rightarrow> jserr + relationship" where
  "getRelationship_part1 s accountId1 accountId2 =
     (case isFriend s accountId1 accountId2 of
        Inl err \<Rightarrow> Inl err
      | Inr answer \<Rightarrow>
          if answer then Inr FRIENDS
          else (case isFriendOfFriends s accountId1 accountId2 of
                  Inl err \<Rightarrow> Inl err
                | Inr answer2 \<Rightarrow>
                    if answer2 then Inr FRIENDS_OF_FRIENDS else Inr NOT_FRIENDS))"

section \<open>The request state machine\<close>

subsection \<open>The friendship model: accept, deny, lookup\<close>

text \<open>The conditions \<open>{requester, requested, status: 'Pending'}\<close> of accept and deny.\<close>

definition pending_from_to :: "objectId \<Rightarrow> objectId \<Rightarrow> friendship \<Rightarrow> bool" where
  "pending_from_to requesterId requestedId d =
     (requester d = requesterId \<and> requested d = requestedId \<and> status d = ''Pending'')"

text \<open>The conditions of \<open>getFriendship\<close>: either direction, \<open>status: 'Accepted'\<close>.\<close>

definition accepted_between :: "objectId \<Rightarrow> objectId \<Rightarrow> friendship \<Rightarrow> bool" where
  "accepted_between accountId1 accountId2 d =
     (((requester d = accountId1 \<and> requested d = accountId2)
       \<or> (requester d = accountId2 \<and> requested d = accountId1))
      \<and> status d = ''Accepted'')"

text \<open>\<open>acceptRequest\<close> of \<open>src/lib/friendship.js\<close>; \<open>now\<close> is \<open>Date.now()\<close>.\<close>

definition acceptRequest :: "db \<Rightarrow> objectId \<Rightarrow> objectId \<Rightarrow> int \<Rightarrow> friendship outcome \<times> db" where
  "acceptRequest s requesterId requestedId now =
     (case findOneAndUpdate s (pending_from_to requesterId requestedId)
             (\<lambda>d. d\<lparr>status := ''Accepted'', dateAccepted := Some now\<rparr>) of
        (Inl err, s') \<Rightarrow> (Done (Inl err), s')
      | (Inr (Some friendship), s') \<Rightarrow> (Done (Inr friendship), s')
      | (Inr None, s') \<Rightarrow> (Done (Inl (Error ''Request does not exist!'')), s'))"

text \<open>
  \<open>acceptRequest\<close> of the older module (\<open>src/unnamed/part_001\<close>): an error of the driver is
  thrown, and a missing request is reported with a bare string.
\<close>

definition acceptRequest_part1 :: "db \<Rightarrow> objectId \<Rightarrow> objectId \<Rightarrow> int \<Rightarrow> friendship outcome \<times> db" where
  "acceptRequest_part1 s requesterId requestedId now =
     (case findOneAndUpdate s (pending_from_to requesterId requestedId)
             (\<lambda>d. d\<lparr>status := ''Accepted'', dateAccepted := Some now\<rparr>) of
        (Inl err, s') \<Rightarrow> (Thrown err, s')
      | (Inr (Some friendship), s') \<Rightarrow> (Done (Inr friendship), s')
      | (Inr None, s') \<Rightarrow> (Done (Inl (ErrString ''Request does not exist!'')), s'))"

text \<open>\<open>denyRequest\<close> of \<open>src/lib/friendship.js\<close>: the request found is removed.\<close>

definition denyRequest :: "db \<Rightarrow> objectId \<Rightarrow> objectId \<Rightarrow> friendship outcome \<times> db" where
  "denyRequest s requesterId requestedId =
     (case findOne s (pending_from_to requesterId requestedId) of
        Inl err \<Rightarrow> (Done (Inl err), s)
      | Inr (Some request) \<Rightarrow> remove_doc s request
      | Inr None \<Rightarrow> (Done (Inl (Error ''Request does not exist!'')), s))"

text \<open>
  \<open>denyRequest\<close> of the older module (\<open>src/unnamed/part_001\<close>). It declares \<open>model\<close> and
  the conditions, and then evaluates \<open>Friendship.findOne(conditions, ...)\<close>. The module
  declares the name \<open>Friendship\<close> nowhere (its \<open>require\<close>s are \<open>debug\<close>, \<open>mongoose\<close>, \<open>privacy\<close>
  and \<open>relationships\<close>, and \<open>model\<close> is not used), so reading it throws a \<open>ReferenceError\<close>
  before any query is sent: \<open>done\<close> is never called and the store is not touched.
\<close>

definition denyRequest_part1 :: "db \<Rightarrow> objectId \<Rightarrow> objectId \<Rightarrow> friendship outcome \<times> db" where
  "denyRequest_part1 s requesterId requestedId =
     (Thrown (ReferenceError ''Friendship is not defined''), s)"

text \<open>\<open>getFriendship\<close> of \<open>src/lib/friendship.js\<close>: \<open>findOne(conditions, done)\<close>.\<close>

definition getFriendship :: "db \<Rightarrow> objectId \<Rightarrow> objectId \<Rightarrow> jserr + friendship option" where
  "getFriendship s accountId1 accountId2 = findOne s (accepted_between accountId1 accountId2)"

subsection \<open>The account plugin (\<open>src/unnamed/part_000\<close>)\<close>

text \<open>
  The plugin's functions are statics of the account model; the name \<open>Friendship\<close> they
  call is taken to be the friendship model.

  \<open>getFriendship\<close> of the plugin: the callback of \<open>findOne\<close> does not look at \<open>err\<close>; it
  populates whatever document it was given.
\<close>

definition account_getFriendship :: "db \<Rightarrow> objectId \<Rightarrow> objectId \<Rightarrow> jserr + friendship option" where
  "account_getFriendship s accountId1 accountId2 =
     (let friendship =
            (case findOne s (accepted_between accountId1 accountId2) of
               Inl err \<Rightarrow> None
             | Inr found \<Rightarrow> found)
      in populate s friendship)"

text \<open>
  What \<open>friendRequest\<close> reads of the value \<open>viewProfile\<close> passes on:
  \<open>requestedAccountInfo._id\<close> and the truth value of \<open>requestedAccountInfo.friendRequests\<close>.
\<close>

record requestedAccountInfo =
  info_id :: objectId
  info_friendRequests :: bool

type_synonym viewProfile_fn = "objectId \<Rightarrow> string \<Rightarrow> jserr + requestedAccountInfo option"

text \<open>
  \<open>friendRequest\<close>. \<open>this.viewProfile\<close> is not among the sources and is a parameter.
  \<open>newId\<close> is the \<open>_id\<close> the new document gets, \<open>now\<close> is \<open>Date.now\<close>. When a friendship is
  found, the arguments of \<open>done(err, populatedFriendship)\<close> are evaluated first, and
  \<open>populatedFriendship\<close> is declared nowhere: a \<open>ReferenceError\<close> is thrown.
\<close>

definition friendRequest :: "viewProfile_fn \<Rightarrow> db \<Rightarrow> objectId \<Rightarrow> string \<Rightarrow> int \<Rightarrow> objectId \<Rightarrow>
    friendship outcome \<times> db" where
  "friendRequest viewProfile s requesterId requestedEmail now newId =
     (case viewProfile requesterId requestedEmail of
        Inl err \<Rightarrow> (Done (Inl err), s)
      | Inr None \<Rightarrow> (DoneEmpty, s)
      | Inr (Some requestedAccountInfo) \<Rightarrow>
          (case account_getFriendship s requesterId (info_id requestedAccountInfo) of
             Inl err \<Rightarrow> (Done (Inl err), s)
           | Inr (Some friendship) \<Rightarrow>
               (Thrown (ReferenceError ''populatedFriendship is not defined''), s)
           | Inr None \<Rightarrow>
               if \<not> info_friendRequests requestedAccountInfo
               then (Done (Inl (Error
                       ''You are not allowed to send this user a friend request.'')), s)
               else save s \<lparr>doc_id = newId, requester = requesterId,
                             requested = info_id requestedAccountInfo,
                             status = ''Pending'', dateSent = now, dateAccepted = None\<rparr>))"

text \<open>
  \<open>acceptRequest\<close> of the plugin, over the \<open>acceptRequest\<close> of the friendship model it
  wraps: it passes \<open>requestedId\<close> first and \<open>requesterId\<close> second, and throws any error it
  gets back.
\<close>

definition account_acceptRequest ::
    "(db \<Rightarrow> objectId \<Rightarrow> objectId \<Rightarrow> int \<Rightarrow> friendship outcome \<times> db) \<Rightarrow>
     db \<Rightarrow> objectId \<Rightarrow> objectId \<Rightarrow> int \<Rightarrow> friendship outcome \<times> db" where
  "account_acceptRequest friendship_acceptRequest s requesterId requestedId now =
     (case friendship_acceptRequest s requestedId requesterId now of
        (Thrown err, s') \<Rightarrow> (Thrown err, s')
      | (Done (Inl err), s') \<Rightarrow> (Thrown err, s')
      | (Done (Inr friendship), s') \<Rightarrow>
          (case populate s' (Some friendship) of
             Inl err \<Rightarrow> (Done (Inl err), s')
           | Inr (Some populated) \<Rightarrow> (Done (Inr populated), s')
           | Inr None \<Rightarrow> (DoneEmpty, s'))
      | (DoneEmpty, s') \<Rightarrow> (Done (Inl (ErrString ''Request does not exist!'')), s'))"

subsection \<open>The privacy gate\<close>

text \<open>
  The privacy settings the plugin adds to an account: four Numbers between
  \<open>privacy.values.ANYBODY\<close> and \<open>privacy.values.NOBODY\<close>. The \<open>privacy\<close> module is not among
  the sources; its two bounds are parameters.
\<close>

record privacy_settings =
  profile :: int
  search :: int
  chatRequests :: int
  friendRequests :: int



text \<open>
  Modelled from the spec: the identity store, missing from the sources
  (\<open>resolveByHandle(handle) -> IdentityRef?\<close>, \<open>getPrivacySettings(id) -> PrivacySettings\<close>).
\<close>

record identity_store =
  resolveByHandle :: "string \<Rightarrow> objectId option"
  getPrivacySettings :: "objectId \<Rightarrow> privacy_settings"


section \<open>Auxiliary functions and example stores\<close>

text \<open>The ids a sub-query delivered: none when it failed.\<close>

fun sub_ids :: "jserr + objectId list \<Rightarrow> objectId list" where
  "sub_ids (Inl err) = []"
| "sub_ids (Inr ids) = ids"

text \<open>How many of a list of sub-query results are successes.\<close>

definition n_ok :: "(jserr + objectId list) list \<Rightarrow> nat" where
  "n_ok rs = length (filter (\<lambda>r. \<not> isl r) rs)"

text \<open>Sub-queries that complete in the order they were started.\<close>

definition in_order :: "objectId list \<Rightarrow> objectId list" where
  "in_order friendIds = friendIds"

text \<open>A store that is up, an Accepted friendship and a Pending request, for building examples.\<close>

definition store :: "friendship list \<Rightarrow> db" where
  "store ds = \<lparr>docs = ds, down = None\<rparr>"

definition accepted :: "objectId \<Rightarrow> objectId \<Rightarrow> objectId \<Rightarrow> friendship" where
  "accepted i a b =
     \<lparr>doc_id = i, requester = a, requested = b, status = ''Accepted'',
      dateSent = 0, dateAccepted = Some 1\<rparr>"

definition pending :: "objectId \<Rightarrow> objectId \<Rightarrow> objectId \<Rightarrow> int \<Rightarrow> friendship" where
  "pending i a b t =
     \<lparr>doc_id = i, requester = a, requested = b, status = ''Pending'',
      dateSent = t, dateAccepted = None\<rparr>"

text \<open>\<open>a\<close> is friends with \<open>b\<close> and \<open>c\<close>; both are friends with \<open>d\<close>.\<close>

definition diamond :: db where
  "diamond = store [accepted ''1'' ''a'' ''b'', accepted ''2'' ''a'' ''c'',
                    accepted ''3'' ''b'' ''d'', accepted ''4'' ''c'' ''d'']"

text \<open>The chain \<open>a\<close>, \<open>b\<close>, \<open>c\<close> where \<open>a\<close> and \<open>c\<close> are friends too.\<close>

definition triangle :: db where
  "triangle = store [accepted ''1'' ''a'' ''b'', accepted ''2'' ''b'' ''c'',
                     accepted ''3'' ''a'' ''c'']"

text \<open>A \<open>getFriends\<close> whose sub-queries for \<open>b\<close> and \<open>e\<close> fail.\<close>

definition flaky :: "objectId \<Rightarrow> jserr + objectId list" where
  "flaky x =
     (if x = ''a'' then Inr [''b'', ''c'', ''e'']
      else if x = ''b'' then Inl (MongoError ''timeout'')
      else if x = ''e'' then Inl (MongoError ''reset'')
      else Inr [''a'', ''d''])"

text \<open>A \<open>viewProfile\<close> that resolves two addresses to accounts that accept friend requests.\<close>

definition open_profile :: viewProfile_fn where
  "open_profile requesterId email =
     (if email = ''b@mail'' then Inr (Some \<lparr>info_id = ''b'', info_friendRequests = True\<rparr>)
      else if email = ''a@mail'' then Inr (Some \<lparr>info_id = ''a'', info_friendRequests = True\<rparr>)
      else Inr None)"


definition ids0 :: identity_store where
  "ids0 = \<lparr>resolveByHandle =
             (\<lambda>h. if h = ''b@mail'' then Some ''b''
                  else if h = ''c@mail'' then Some ''c'' else None),
           getPrivacySettings =
             (\<lambda>i. if i = ''b''
                  then \<lparr>profile = 3, search = 3, chatRequests = 3, friendRequests = 3\<rparr>
                  else \<lparr>profile = 0, search = 0, chatRequests = 0, friendRequests = 0\<rparr>)\<rparr>"

section \<open>Theorems\<close>

subsection \<open>The fan-out of \<open>getFriendsOfFriends\<close>\<close>

lemma indexOf_strings:
  "set xs \<subseteq> range JString \<Longrightarrow> indexOf xs (JObjectId i) = -1"
  by (induction xs) (auto simp: Let_def)

lemma fof_visit_strings:
  assumes "set (idsFound st) \<subseteq> range JString"
  shows "fof_visit a arr st x =
     (if x \<noteq> a
      then st\<lparr>idsFound := idsFound st @ [JString (array_toString arr)],
              friendsOfFriendsIds := friendsOfFriendsIds st @ [x]\<rparr>
      else st)"
  using indexOf_strings[OF assms] by (auto simp: fof_visit_def equals_def)

lemma fof_visit_foldl:
  assumes "set (idsFound st) \<subseteq> range JString"
  shows "set (idsFound (foldl (fof_visit a arr) st xs)) \<subseteq> range JString
       \<and> friendsOfFriendsIds (foldl (fof_visit a arr) st xs)
           = friendsOfFriendsIds st @ filter (\<lambda>x. x \<noteq> a) xs
       \<and> totalResults (foldl (fof_visit a arr) st xs) = totalResults st
       \<and> calls (foldl (fof_visit a arr) st xs) = calls st"
  using assms
proof (induction xs arbitrary: st)
  case Nil
  then show ?case by simp
next
  case (Cons x xs)
  let ?st = "fof_visit a arr st x"
  have inv: "set (idsFound ?st) \<subseteq> range JString"
    using Cons.prems by (auto simp: fof_visit_strings)
  show ?case
    using Cons.IH[OF inv] Cons.prems by (auto simp: fof_visit_strings)
qed

text \<open>
  The state after the callbacks of a list of sub-query results: every id other than the
  account is appended, the counter counts the successes, and as long as the counter
  stays below the number of friends the only calls of \<open>done\<close> are the errors.
\<close>

lemma fof_callback_foldl:
  assumes "set (idsFound st) \<subseteq> range JString"
  shows "set (idsFound (foldl (fof_callback a F) st rs)) \<subseteq> range JString
       \<and> friendsOfFriendsIds (foldl (fof_callback a F) st rs)
           = friendsOfFriendsIds st @ filter (\<lambda>x. x \<noteq> a) (concat (map sub_ids rs))
       \<and> totalResults (foldl (fof_callback a F) st rs) = totalResults st + n_ok rs
       \<and> (totalResults st + n_ok rs < length F \<longrightarrow>
            calls (foldl (fof_callback a F) st rs) = calls st @ filter isl rs)"
  using assms
proof (induction rs arbitrary: st)
  case Nil
  then show ?case by (simp add: n_ok_def)
next
  case (Cons r rs)
  let ?st = "fof_callback a F st r"
  show ?case
  proof (cases r)
    case (Inl err)
    then have st: "?st = st\<lparr>calls := calls st @ [Inl err]\<rparr>"
      by (simp add: fof_callback_def)
    have inv: "set (idsFound ?st) \<subseteq> range JString"
      using Cons.prems st by simp
    show ?thesis
      using Cons.IH[OF inv] st Inl by (simp add: n_ok_def)
  next
    case (Inr ids)
    note v = fof_visit_foldl[OF Cons.prems, of a ids ids]
    have inv: "set (idsFound ?st) \<subseteq> range JString"
      using v Inr by (simp add: fof_callback_def Let_def)
    have ids': "friendsOfFriendsIds ?st = friendsOfFriendsIds st @ filter (\<lambda>x. x \<noteq> a) ids"
      using v Inr by (simp add: fof_callback_def Let_def)
    have tot: "totalResults ?st = totalResults st + 1"
      using v Inr by (simp add: fof_callback_def Let_def)
    have cl: "totalResults st + 1 < length F \<Longrightarrow> calls ?st = calls st"
      using v Inr by (simp add: fof_callback_def Let_def)
    show ?thesis
      using Cons.IH[OF inv] ids' tot cl Inr by (auto simp: n_ok_def)
  qed
qed

lemma n_ok_le: "n_ok rs \<le> length rs"
  by (simp add: n_ok_def)

lemma n_ok_all: "(\<forall>r\<in>set rs. \<not> isl r) \<Longrightarrow> n_ok rs = length rs"
  by (simp add: n_ok_def)

lemma n_ok_some: "\<exists>r\<in>set rs. isl r \<Longrightarrow> n_ok rs < length rs"
  unfolding n_ok_def by (auto intro: length_filter_less)

lemma fof_init_strings: "set (idsFound fof_init) \<subseteq> range JString"
  by (simp add: fof_init_def)

lemma fof_fanout_failing:
  assumes "n_ok (map gf completed) < length F"
  shows "calls (fof_fanout gf a F completed) = filter isl (map gf completed)"
  using fof_callback_foldl[OF fof_init_strings, of a F "map gf completed"] assms
  by (simp add: fof_fanout_def fof_init_def)

lemma fof_fanout_all_ok:
  assumes len: "length completed = length F" and ne: "F \<noteq> []"
    and ok: "\<forall>f\<in>set completed. \<not> isl (gf f)"
  shows "calls (fof_fanout gf a F completed)
         = [Inr (filter (\<lambda>x. x \<noteq> a) (concat (map sub_ids (map gf completed))))]"
proof -
  from len ne have "completed \<noteq> []" by auto
  then obtain front l where c: "completed = front @ [l]"
    by (metis rev_exhaust)
  obtain ids where l: "gf l = Inr ids"
    using ok c by (cases "gf l") auto
  let ?rs = "map gf front"
  let ?st = "foldl (fof_callback a F) fof_init ?rs"
  have okf: "\<forall>r\<in>set ?rs. \<not> isl r" using ok c by auto
  have nf: "n_ok ?rs = length front" using n_ok_all[OF okf] by simp
  have lt: "totalResults fof_init + n_ok ?rs < length F"
    using nf len c by (simp add: fof_init_def)
  note A = fof_callback_foldl[OF fof_init_strings, of a F ?rs]
  have inv: "set (idsFound ?st) \<subseteq> range JString" using A by simp
  have ids0: "friendsOfFriendsIds ?st = filter (\<lambda>x. x \<noteq> a) (concat (map sub_ids ?rs))"
    using A by (simp add: fof_init_def)
  have tot: "totalResults ?st = length front" using A nf by (simp add: fof_init_def)
  have "filter isl ?rs = []" using okf by (simp add: filter_empty_conv)
  then have cl: "calls ?st = []" using A lt by (simp add: fof_init_def)
  note v = fof_visit_foldl[OF inv, of a ids ids]
  have "calls (fof_callback a F ?st (Inr ids))
        = [Inr (filter (\<lambda>x. x \<noteq> a) (concat (map sub_ids ?rs)) @ filter (\<lambda>x. x \<noteq> a) ids)]"
    using v tot cl ids0 len c by (simp add: fof_callback_def Let_def)
  then show ?thesis
    using c l by (simp add: fof_fanout_def)
qed

lemma fof_fanout_calls:
  assumes len: "length completed = length F" and ne: "F \<noteq> []"
  shows "calls (fof_fanout gf a F completed)
         = (if \<exists>f\<in>set completed. isl (gf f) then filter isl (map gf completed)
            else [Inr (filter (\<lambda>x. x \<noteq> a) (concat (map sub_ids (map gf completed))))])"
proof (cases "\<exists>f\<in>set completed. isl (gf f)")
  case True
  then have "\<exists>r\<in>set (map gf completed). isl r" by auto
  from n_ok_some[OF this] have "n_ok (map gf completed) < length F" using len by simp
  from fof_fanout_failing[OF this] True show ?thesis by simp
next
  case False
  then have "\<forall>f\<in>set completed. \<not> isl (gf f)" by simp
  from fof_fanout_all_ok[OF len ne this] False show ?thesis by simp
qed

lemma fof_fanout_prefix:
  assumes "length completed < length F"
  shows "calls (fof_fanout gf a F completed) = filter isl (map gf completed)"
proof -
  have "n_ok (map gf completed) \<le> length completed"
    using n_ok_le[of "map gf completed"] by simp
  then have "n_ok (map gf completed) < length F" using assms by simp
  from fof_fanout_failing[OF this] show ?thesis .
qed

lemma getFriendsOfFriends_with_calls:
  assumes gf: "gf a = Inr F" and ne: "F \<noteq> []" and len: "length (sched F) = length F"
  shows "getFriendsOfFriends_with gf sched a
         = (if \<exists>f\<in>set (sched F). isl (gf f) then filter isl (map gf (sched F))
            else [Inr (filter (\<lambda>x. x \<noteq> a) (concat (map sub_ids (map gf (sched F)))))])"
  using fof_fanout_calls[OF len ne, of gf a] gf ne
  by (simp add: getFriendsOfFriends_with_def)

lemma getFriends_all_up:
  "getFriends s a = Inr F \<Longrightarrow> \<not> isl (getFriends s f)"
  by (auto simp: getFriends_def find_docs_def split: option.splits)

lemma diamond_friends:
  "getFriends diamond ''a'' = Inr [''b'', ''c'']"
  "getFriends diamond ''b'' = Inr [''a'', ''d'']"
  "getFriends diamond ''c'' = Inr [''a'', ''d'']"
  "getFriends diamond ''d'' = Inr [''b'', ''c'']"
  by (simp_all add: getFriends_def find_docs_def diamond_def store_def accepted_def equals_def)

text \<open>
  C1 (the code at the failing input). In the store \<open>diamond\<close>, \<open>a\<close> is friends with \<open>b\<close> and
  \<open>c\<close>, and both are friends with \<open>d\<close>. \<open>getFriendsOfFriends(a)\<close> calls \<open>done\<close> once, with a
  list that holds \<open>d\<close> twice: \<open>idsFound\<close> receives strings of whole arrays, so the search
  for an ObjectId in it never finds anything and no id is ever skipped as already counted.
\<close>

theorem C1_getFriendsOfFriends_duplicates:
  "getFriendsOfFriends diamond in_order ''a'' = [Inr [''d'', ''d'']]"
  by (simp add: getFriendsOfFriends_def getFriendsOfFriends_with_def diamond_friends
      in_order_def fof_fanout_def fof_callback_def fof_visit_def fof_init_def equals_def
      Let_def)

text \<open>
  C2, as amended. Whenever \<open>getFriendsOfFriends(a)\<close> delivers a list, the list does not
  contain \<open>a\<close>, and it contains exactly the ids other than \<open>a\<close> that are friends of some
  friend of \<open>a\<close>: direct friends of \<open>a\<close> are not filtered out. This holds for every order in
  which the sub-queries complete.
\<close>

theorem C2_friends_of_friends_excludes_self:
  assumes gf: "getFriends s a = Inr F" and perm: "mset (sched F) = mset F"
    and r: "Inr r \<in> set (getFriendsOfFriends s sched a)"
  shows "a \<notin> set r
       \<and> (\<forall>c. (c \<in> set r)
              = (c \<noteq> a \<and> (\<exists>f\<in>set F. \<exists>fs. getFriends s f = Inr fs \<and> c \<in> set fs)))"
proof (cases "F = []")
  case True
  then have "getFriendsOfFriends s sched a = [Inr []]"
    using gf by (simp add: getFriendsOfFriends_def getFriendsOfFriends_with_def)
  with r have "r = []" by simp
  with True show ?thesis by simp
next
  case False
  have len: "length (sched F) = length F" using perm by (rule mset_eq_length)
  have sets: "set (sched F) = set F" using perm by (rule mset_eq_setD)
  have up: "\<And>f. \<not> isl (getFriends s f)" using getFriends_all_up[OF gf] .
  have "getFriendsOfFriends s sched a
        = [Inr (filter (\<lambda>x. x \<noteq> a) (concat (map sub_ids (map (getFriends s) (sched F)))))]"
    using getFriendsOfFriends_with_calls[where gf = "getFriends s" and a = a and sched = sched,
        OF gf False len] up
    by (simp add: getFriendsOfFriends_def)
  with r have req: "r = filter (\<lambda>x. x \<noteq> a) (concat (map sub_ids (map (getFriends s) (sched F))))"
    by simp
  have sub: "\<And>f c. (c \<in> set (sub_ids (getFriends s f)))
      = (\<exists>fs. getFriends s f = Inr fs \<and> c \<in> set fs)"
  proof -
    fix f c
    show "(c \<in> set (sub_ids (getFriends s f))) = (\<exists>fs. getFriends s f = Inr fs \<and> c \<in> set fs)"
      by (cases "getFriends s f") simp_all
  qed
  have "\<And>c. (c \<in> set r)
      = (c \<noteq> a \<and> (\<exists>f\<in>set F. c \<in> set (sub_ids (getFriends s f))))"
    unfolding req using sets by auto
  then show ?thesis by (simp add: sub)
qed

text \<open>C2, the amended statement at the store \<open>diamond\<close>.\<close>

theorem C2_witness:
  "getFriends diamond ''a'' = Inr [''b'', ''c'']
   \<and> Inr [''d'', ''d''] \<in> set (getFriendsOfFriends diamond in_order ''a'')
   \<and> ''a'' \<notin> set [''d'', ''d'']
   \<and> (\<exists>f\<in>set [''b'', ''c'']. \<exists>fs. getFriends diamond f = Inr fs \<and> ''d'' \<in> set fs)"
  using C2_friends_of_friends_excludes_self
          [of diamond "''a''" "[''b'', ''c'']" in_order "[''d'', ''d'']"]
  by (simp add: diamond_friends in_order_def getFriendsOfFriends_def
      getFriendsOfFriends_with_def fof_fanout_def fof_callback_def fof_visit_def fof_init_def
      equals_def Let_def)

text \<open>
  C2, the claim as stated fails: in the chain \<open>a\<close>, \<open>b\<close>, \<open>c\<close> where \<open>a\<close> and \<open>c\<close> are friends
  too, the friends of \<open>a\<close> are \<open>b\<close> and \<open>c\<close>, and \<open>getFriendsOfFriends(a)\<close> delivers both of
  them.
\<close>

theorem C2_direct_friend_reported:
  "getFriends triangle ''a'' = Inr [''b'', ''c'']
   \<and> getFriendsOfFriends triangle in_order ''a'' = [Inr [''c'', ''b'']]"
  by (simp add: getFriendsOfFriends_def getFriendsOfFriends_with_def getFriends_def
      find_docs_def triangle_def store_def accepted_def in_order_def fof_fanout_def
      fof_callback_def fof_visit_def fof_init_def equals_def Let_def)

text \<open>
  All calls of \<open>done\<close>. Let \<open>getFriends(a)\<close> deliver a non-empty list of friends and let the
  sub-queries complete in any order. If a sub-query fails, \<open>done\<close> is called once for
  every failing sub-query, with that sub-query's error, in the order the sub-queries
  complete: there is at least one call, the first call carries the first error, and no
  call carries a list. If no sub-query fails, \<open>done\<close> is called exactly once, with a list.
  In both cases no list has been delivered while fewer sub-queries have completed than
  there are friends.
\<close>

lemma getFriendsOfFriends_done_calls:
  assumes gf: "gf accountId = Inr friendIds" and ne: "friendIds \<noteq> []"
    and perm: "mset (sched friendIds) = mset friendIds"
  shows "((\<exists>f\<in>set friendIds. isl (gf f)) \<longrightarrow>
            getFriendsOfFriends_with gf sched accountId = filter isl (map gf (sched friendIds))
          \<and> getFriendsOfFriends_with gf sched accountId \<noteq> []
          \<and> (\<forall>ids. Inr ids \<notin> set (getFriendsOfFriends_with gf sched accountId)))
       \<and> ((\<forall>f\<in>set friendIds. \<not> isl (gf f)) \<longrightarrow>
            (\<exists>ids. getFriendsOfFriends_with gf sched accountId = [Inr ids]))
       \<and> (\<forall>k<length friendIds. \<forall>ids.
            Inr ids \<notin> set (calls (fof_fanout gf accountId friendIds (take k (sched friendIds)))))"
proof -
  have len: "length (sched friendIds) = length friendIds"
    using perm by (rule mset_eq_length)
  have sets: "set (sched friendIds) = set friendIds"
    using perm by (rule mset_eq_setD)
  note tr = getFriendsOfFriends_with_calls[where gf = gf and a = accountId and sched = sched,
      OF gf ne len]
  have fail: "(\<exists>f\<in>set friendIds. isl (gf f)) \<longrightarrow>
            getFriendsOfFriends_with gf sched accountId = filter isl (map gf (sched friendIds))
          \<and> getFriendsOfFriends_with gf sched accountId \<noteq> []
          \<and> (\<forall>ids. Inr ids \<notin> set (getFriendsOfFriends_with gf sched accountId))"
  proof
    assume ex: "\<exists>f\<in>set friendIds. isl (gf f)"
    then have eq: "getFriendsOfFriends_with gf sched accountId
        = filter isl (map gf (sched friendIds))"
      using tr sets by simp
    have "filter isl (map gf (sched friendIds)) \<noteq> []"
      using ex sets by (auto simp: filter_empty_conv)
    moreover have "\<forall>ids. Inr ids \<notin> set (filter isl (map gf (sched friendIds)))"
      by auto
    ultimately show "getFriendsOfFriends_with gf sched accountId
          = filter isl (map gf (sched friendIds))
        \<and> getFriendsOfFriends_with gf sched accountId \<noteq> []
        \<and> (\<forall>ids. Inr ids \<notin> set (getFriendsOfFriends_with gf sched accountId))"
      using eq by simp
  qed
  have ok: "(\<forall>f\<in>set friendIds. \<not> isl (gf f)) \<longrightarrow>
            (\<exists>ids. getFriendsOfFriends_with gf sched accountId = [Inr ids])"
    using tr sets by simp
  have early: "\<forall>k<length friendIds. \<forall>ids.
      Inr ids \<notin> set (calls (fof_fanout gf accountId friendIds (take k (sched friendIds))))"
  proof (intro allI impI)
    fix k ids
    assume "k < length friendIds"
    then have "length (take k (sched friendIds)) < length friendIds" by simp
    from fof_fanout_prefix[OF this]
    show "Inr ids \<notin> set (calls (fof_fanout gf accountId friendIds (take k (sched friendIds))))"
      by auto
  qed
  from fail ok early show ?thesis by blast
qed

text \<open>
  C8 (the code at the failing input). \<open>a\<close> has the friends \<open>b\<close>, \<open>c\<close> and \<open>e\<close>, and the
  sub-queries for \<open>b\<close> and \<open>e\<close> fail. The call does not report one error: the error branch
  of each callback calls \<open>done(err)\<close> whatever happened before, so \<open>done\<close> is called twice,
  with the first error and then with the second. No list is delivered.
\<close>

theorem C8_done_called_per_failure:
  "flaky ''a'' = Inr [''b'', ''c'', ''e'']
   \<and> flaky ''b'' = Inl (MongoError ''timeout'')
   \<and> flaky ''e'' = Inl (MongoError ''reset'')
   \<and> getFriendsOfFriends_with flaky in_order ''a''
       = [Inl (MongoError ''timeout''), Inl (MongoError ''reset'')]"
  by (simp add: getFriendsOfFriends_with_def flaky_def in_order_def fof_fanout_def
      fof_callback_def fof_visit_def fof_init_def equals_def Let_def)

subsection \<open>Friend sets and classification\<close>

lemma accepted_between_sym: "accepted_between a b d = accepted_between b a d"
  by (auto simp: accepted_between_def)

lemma mem_map_filter: "(b \<in> set (map f (filter P xs))) = (\<exists>d\<in>set xs. P d \<and> f d = b)"
  by auto

text \<open>The friends of an account are the other sides of the Accepted friendships that name it.\<close>

lemma getFriends_mem:
  assumes "getFriends s a = Inr fa"
  shows "(b \<in> set fa) = (\<exists>d\<in>set (docs s). accepted_between a b d)"
proof -
  from assms have up: "down s = None"
    by (auto simp: getFriends_def find_docs_def split: option.splits)
  with assms have fa: "fa = map (\<lambda>friendship.
        if a = requester friendship then requested friendship else requester friendship)
      (filter (\<lambda>d. (requester d = a \<or> requested d = a) \<and> status d = ''Accepted'') (docs s))"
    by (auto simp: getFriends_def find_docs_def equals_def)
  have pt: "\<And>d. (((requester d = a \<or> requested d = a) \<and> status d = ''Accepted'')
        \<and> (if a = requester d then requested d else requester d) = b)
      = accepted_between a b d"
    by (auto simp: accepted_between_def)
  have "(b \<in> set fa) = (\<exists>d\<in>set (docs s). ((requester d = a \<or> requested d = a)
        \<and> status d = ''Accepted'')
        \<and> (if a = requester d then requested d else requester d) = b)"
    unfolding fa by (rule mem_map_filter)
  then show ?thesis by (simp only: pt)
qed

lemma areFriends_loop_mem: "areFriends_loop b xs answer = (answer \<or> b \<in> set xs)"
  by (induction xs arbitrary: answer) (auto simp: equals_def)

lemma mutual_inner_mem: "mutual_inner x ys answer = (answer \<or> x \<in> set ys)"
  by (induction ys arbitrary: answer) (auto simp: equals_def)

lemma mutual_outer_mem: "mutual_outer xs ys answer = (answer \<or> set xs \<inter> set ys \<noteq> {})"
  by (induction xs arbitrary: answer) (auto simp: mutual_inner_mem)

lemma areFriends_eq:
  "getFriends s a = Inr fa \<Longrightarrow> areFriends s a b = Inr (b \<in> set fa)"
  by (cases fa) (simp_all add: areFriends_def areFriends_loop_mem)

lemma areFriendsOfFriends_eq:
  "getFriends s a = Inr fa \<Longrightarrow> getFriends s b = Inr fb \<Longrightarrow>
   areFriendsOfFriends s a b = Inr (set fa \<inter> set fb \<noteq> {})"
  by (cases fa; cases fb) (simp_all add: areFriendsOfFriends_def mutual_outer_mem)

text \<open>The functions of the older module compute what their namesakes in \<open>src/lib\<close> compute.\<close>

lemma isFriend_eq: "isFriend = areFriends"
  by (intro ext) (simp add: isFriend_def areFriends_def)

lemma isFriendOfFriends_eq: "isFriendOfFriends = areFriendsOfFriends"
  by (intro ext) (simp add: isFriendOfFriends_def areFriendsOfFriends_def)

lemma getRelationship_part1_eq: "getRelationship_part1 = getRelationship"
  unfolding getRelationship_part1_def getRelationship_def isFriend_eq isFriendOfFriends_eq
  by (rule refl)

lemma getRelationship_eq:
  assumes "getFriends s a = Inr fa" "getFriends s b = Inr fb"
  shows "getRelationship s a b =
     Inr (if b \<in> set fa then FRIENDS
          else if set fa \<inter> set fb \<noteq> {} then FRIENDS_OF_FRIENDS else NOT_FRIENDS)"
  using areFriends_eq[OF assms(1), of b] areFriendsOfFriends_eq[OF assms]
  by (simp add: getRelationship_def)

text \<open>
  C6. When the friends of \<open>a\<close> and of \<open>b\<close> can be read, \<open>getRelationship(a, b)\<close> delivers
  \<open>FRIENDS\<close> exactly when \<open>b\<close> is a friend of \<open>a\<close>; \<open>FRIENDS_OF_FRIENDS\<close> exactly when it is
  not and the two friend lists share an id; \<open>NOT_FRIENDS\<close> exactly when it is not and
  they share none. It delivers one of the three, so a friend who also shares a mutual
  friend is classified \<open>FRIENDS\<close>. The older module's \<open>getRelationship\<close> delivers the same.
\<close>

theorem C6_getRelationship_classifies:
  assumes "getFriends s a = Inr fa" and "getFriends s b = Inr fb"
  shows "(getRelationship s a b = Inr FRIENDS) = (b \<in> set fa)
       \<and> (getRelationship s a b = Inr FRIENDS_OF_FRIENDS)
           = (b \<notin> set fa \<and> set fa \<inter> set fb \<noteq> {})
       \<and> (getRelationship s a b = Inr NOT_FRIENDS)
           = (b \<notin> set fa \<and> set fa \<inter> set fb = {})
       \<and> getRelationship s a b \<in> {Inr FRIENDS, Inr FRIENDS_OF_FRIENDS, Inr NOT_FRIENDS}
       \<and> getRelationship_part1 s a b = getRelationship s a b"
  using getRelationship_eq[OF assms] by (simp add: getRelationship_part1_eq)

text \<open>
  C6 in the store \<open>diamond\<close>: \<open>a\<close> and \<open>d\<close> are not friends and share the friends \<open>b\<close> and \<open>c\<close>;
  \<open>a\<close> and \<open>b\<close> are friends.
\<close>

theorem C6_witness:
  "getFriends diamond ''a'' = Inr [''b'', ''c'']
   \<and> getFriends diamond ''d'' = Inr [''b'', ''c'']
   \<and> getFriends diamond ''b'' = Inr [''a'', ''d'']
   \<and> getRelationship diamond ''a'' ''d'' = Inr FRIENDS_OF_FRIENDS
   \<and> getRelationship diamond ''a'' ''b'' = Inr FRIENDS"
  using C6_getRelationship_classifies
          [of diamond "''a''" "[''b'', ''c'']" "''d''" "[''b'', ''c'']"]
        C6_getRelationship_classifies
          [of diamond "''a''" "[''b'', ''c'']" "''b''" "[''a'', ''d'']"]
  by (simp add: diamond_friends)

text \<open>
  C9. In every state of the store in which the two friend lists can be read, \<open>b\<close> is among
  the friends of \<open>a\<close> exactly when \<open>a\<close> is among the friends of \<open>b\<close>: \<open>getFriends\<close> takes the
  other side of every Accepted friendship, whoever sent the request.
\<close>

theorem C9_getFriends_symmetric:
  assumes "getFriends s a = Inr fa" and "getFriends s b = Inr fb"
  shows "(b \<in> set fa) = (a \<in> set fb)"
  using getFriends_mem[OF assms(1), of b] getFriends_mem[OF assms(2), of a]
  by (simp add: accepted_between_sym[of a b])

text \<open>C9 in the store \<open>diamond\<close>, where \<open>a\<close> sent the request that \<open>b\<close> accepted.\<close>

theorem C9_witness:
  "getFriends diamond ''a'' = Inr [''b'', ''c'']
   \<and> getFriends diamond ''b'' = Inr [''a'', ''d'']
   \<and> (''b'' \<in> set [''b'', ''c'']) = (''a'' \<in> set [''a'', ''d''])"
  using C9_getFriends_symmetric[of diamond "''a''" "[''b'', ''c'']" "''b''" "[''a'', ''d'']"]
  by (simp add: diamond_friends)

text \<open>
  C10. For an account \<open>a\<close> with at least one friend, the mutual-friend predicate applied
  to \<open>a\<close> and \<open>a\<close> delivers true, under both of its names: nothing in it compares the two
  accounts.
\<close>

theorem C10_self_is_friend_of_friends:
  assumes "getFriends s a = Inr fa" and "fa \<noteq> []"
  shows "areFriendsOfFriends s a a = Inr True \<and> isFriendOfFriends s a a = Inr True"
  using areFriendsOfFriends_eq[OF assms(1) assms(1)] assms(2)
  by (simp add: isFriendOfFriends_eq)

text \<open>C10 in the store \<open>diamond\<close>.\<close>

theorem C10_witness:
  "getFriends diamond ''a'' = Inr [''b'', ''c'']
   \<and> areFriendsOfFriends diamond ''a'' ''a'' = Inr True
   \<and> isFriendOfFriends diamond ''a'' ''a'' = Inr True"
  using C10_self_is_friend_of_friends[of diamond "''a''" "[''b'', ''c'']"]
  by (simp add: diamond_friends)

subsection \<open>Requests\<close>

text \<open>What a successful \<open>friendRequest\<close> says about its input and its result.\<close>

lemma friendRequest_sent:
  assumes "friendRequest viewProfile s a handle now newId = (Done (Inr e), s1)"
  shows "\<exists>info. viewProfile a handle = Inr (Some info) \<and> info_friendRequests info
         \<and> account_getFriendship s a (info_id info) = Inr None
         \<and> down s = None \<and> newId \<notin> doc_id ` set (docs s)
         \<and> e = \<lparr>doc_id = newId, requester = a, requested = info_id info,
                 status = ''Pending'', dateSent = now, dateAccepted = None\<rparr>
         \<and> s1 = s\<lparr>docs := docs s @ [e]\<rparr>"
  using assms
  by (auto simp: friendRequest_def save_def split: sum.splits option.splits if_splits)


lemma account_getFriendship_None:
  assumes "account_getFriendship s a b = Inr None" "down s = None"
  shows "find (accepted_between a b) (docs s) = None"
  using assms
  by (auto simp: account_getFriendship_def findOne_def populate_def split: option.splits)

lemma find_append_last:
  "(\<forall>d\<in>set ds. \<not> P d) \<Longrightarrow> P e \<Longrightarrow> find P (ds @ [e]) = Some e"
  by (induction ds) auto

lemma update_first_append_last:
  "(\<forall>d\<in>set ds. \<not> P d) \<Longrightarrow> P e \<Longrightarrow> update_first P u (ds @ [e]) = ds @ [u e]"
  by (induction ds) auto

lemma filter_fresh:
  "i \<notin> doc_id ` set ds \<Longrightarrow> doc_id e = i \<Longrightarrow> filter (\<lambda>d. doc_id d \<noteq> doc_id e) (ds @ [e]) = ds"
  by (induction ds) auto

text \<open>
  C3 (the code at the failing input). With an empty store, \<open>friendRequest(a, b)\<close> succeeds
  and stores a Pending request. A second \<open>friendRequest(a, b)\<close>, and likewise a
  \<open>friendRequest(b, a)\<close>, succeeds as well and stores a second Pending request for the
  pair: the lookup \<open>getFriendship\<close> only finds Accepted friendships. When the pair has an
  Accepted friendship, nothing is stored, but \<open>done\<close> is never called: reading the
  undeclared \<open>populatedFriendship\<close> throws.
\<close>

theorem C3_duplicate_request_created:
  "friendRequest open_profile (store []) ''a'' ''b@mail'' 10 ''r1''
     = (Done (Inr (pending ''r1'' ''a'' ''b'' 10)), store [pending ''r1'' ''a'' ''b'' 10])
   \<and> friendRequest open_profile (store [pending ''r1'' ''a'' ''b'' 10]) ''a'' ''b@mail'' 20 ''r2''
     = (Done (Inr (pending ''r2'' ''a'' ''b'' 20)),
        store [pending ''r1'' ''a'' ''b'' 10, pending ''r2'' ''a'' ''b'' 20])
   \<and> friendRequest open_profile (store [pending ''r1'' ''a'' ''b'' 10]) ''b'' ''a@mail'' 20 ''r2''
     = (Done (Inr (pending ''r2'' ''b'' ''a'' 20)),
        store [pending ''r1'' ''a'' ''b'' 10, pending ''r2'' ''b'' ''a'' 20])
   \<and> friendRequest open_profile (store [accepted ''r1'' ''a'' ''b'']) ''a'' ''b@mail'' 20 ''r2''
     = (Thrown (ReferenceError ''populatedFriendship is not defined''),
        store [accepted ''r1'' ''a'' ''b''])"
  by (simp add: friendRequest_def open_profile_def store_def pending_def accepted_def
      account_getFriendship_def findOne_def populate_def accepted_between_def save_def)




text \<open>
  The friendship model's own \<open>acceptRequest\<close>, called with the requester first: after a
  request from \<open>a\<close> to \<open>b\<close> was stored (and no other Pending request from \<open>a\<close> to \<open>b\<close> is),
  the request had no \<open>dateAccepted\<close>, accepting it delivers it with status Accepted and
  \<open>dateAccepted\<close> set, and accepting it again ends with "Request does not exist!".
\<close>

lemma acceptRequest_direct:
  assumes sent: "friendRequest viewProfile s a handle now newId = (Done (Inr e), s1)"
    and single: "\<forall>d\<in>set (docs s). \<not> pending_from_to a (requested e) d"
  shows "dateAccepted e = None
       \<and> acceptRequest s1 a (requested e) t
           = (Done (Inr (e\<lparr>status := ''Accepted'', dateAccepted := Some t\<rparr>)),
              s\<lparr>docs := docs s @ [e\<lparr>status := ''Accepted'', dateAccepted := Some t\<rparr>]\<rparr>)
       \<and> acceptRequest (s\<lparr>docs := docs s @ [e\<lparr>status := ''Accepted'', dateAccepted := Some t\<rparr>]\<rparr>)
             a (requested e) t'
           = (Done (Inl (Error ''Request does not exist!'')),
              s\<lparr>docs := docs s @ [e\<lparr>status := ''Accepted'', dateAccepted := Some t\<rparr>]\<rparr>)"
proof -
  from friendRequest_sent[OF sent] obtain info where
    vp: "viewProfile a handle = Inr (Some info)" and allowed: "info_friendRequests info"
    and absent: "account_getFriendship s a (info_id info) = Inr None"
    and up: "down s = None" and fresh: "newId \<notin> doc_id ` set (docs s)"
    and e: "e = \<lparr>doc_id = newId, requester = a, requested = info_id info,
                 status = ''Pending'', dateSent = now, dateAccepted = None\<rparr>"
    and s1: "s1 = s\<lparr>docs := docs s @ [e]\<rparr>"
    by blast
  let ?u = "\<lambda>d. d\<lparr>status := ''Accepted'', dateAccepted := Some t\<rparr>"
  have pe: "pending_from_to a (requested e) e"
    using e by (simp add: pending_from_to_def)
  have found: "find (pending_from_to a (requested e)) (docs s @ [e]) = Some e"
    using find_append_last[OF single pe] .
  have upd: "update_first (pending_from_to a (requested e)) ?u (docs s @ [e]) = docs s @ [?u e]"
    using update_first_append_last[OF single pe] .
  have first: "acceptRequest s1 a (requested e) t
      = (Done (Inr (?u e)), s\<lparr>docs := docs s @ [?u e]\<rparr>)"
    using found upd up by (simp add: acceptRequest_def findOneAndUpdate_def s1)
  have "\<forall>d\<in>set (docs s @ [?u e]). \<not> pending_from_to a (requested e) d"
    using single by (auto simp: pending_from_to_def)
  then have none: "find (pending_from_to a (requested e)) (docs s @ [?u e]) = None"
    unfolding find_None_iff by blast
  have second: "acceptRequest (s\<lparr>docs := docs s @ [?u e]\<rparr>) a (requested e) t'
      = (Done (Inl (Error ''Request does not exist!'')), s\<lparr>docs := docs s @ [?u e]\<rparr>)"
    using none up by (simp add: acceptRequest_def findOneAndUpdate_def)
  show ?thesis using e first second by simp
qed

text \<open>
  C5 (the code at the failing input). After \<open>friendRequest(a, b)\<close> stored a Pending
  request, the plugin's \<open>acceptRequest(a, b)\<close> does not accept it: it asks the friendship
  model for a Pending request from \<open>b\<close> to \<open>a\<close>, there is none, and it throws "Request does
  not exist!" (an \<open>Error\<close> over the model of \<open>src/lib\<close>, a bare string over the older
  one). The stored request stays Pending, without \<open>dateAccepted\<close>.
\<close>

theorem C5_plugin_accept_swapped:
  "friendRequest open_profile (store []) ''a'' ''b@mail'' 10 ''r1''
     = (Done (Inr (pending ''r1'' ''a'' ''b'' 10)), store [pending ''r1'' ''a'' ''b'' 10])
   \<and> account_acceptRequest acceptRequest (store [pending ''r1'' ''a'' ''b'' 10]) ''a'' ''b'' 30
     = (Thrown (Error ''Request does not exist!''), store [pending ''r1'' ''a'' ''b'' 10])
   \<and> account_acceptRequest acceptRequest_part1 (store [pending ''r1'' ''a'' ''b'' 10]) ''a'' ''b'' 30
     = (Thrown (ErrString ''Request does not exist!''), store [pending ''r1'' ''a'' ''b'' 10])"
  by (simp add: friendRequest_def open_profile_def store_def pending_def
      account_getFriendship_def findOne_def populate_def accepted_between_def save_def
      account_acceptRequest_def acceptRequest_def acceptRequest_part1_def
      findOneAndUpdate_def pending_from_to_def)

text \<open>
  \<open>denyRequest\<close> of \<open>src/lib/friendship.js\<close> where it does delete the request: let
  \<open>friendRequest(a, b)\<close> have stored the Pending request \<open>e\<close>, in a store that held no other
  Pending request from \<open>a\<close> to \<open>b\<close>. Then \<open>denyRequest(a, b)\<close> succeeds and leaves the store
  as it was before the request; after that \<open>getFriendship(a, b)\<close> finds nothing, and the
  same \<open>friendRequest(a, b)\<close> (with an \<open>_id\<close> that is not stored) succeeds again.
\<close>

lemma denyRequest_single_request:
  assumes sent: "friendRequest viewProfile s a handle now newId = (Done (Inr e), s1)"
    and single: "\<forall>d\<in>set (docs s). \<not> pending_from_to a (requested e) d"
    and fresh': "newId' \<notin> doc_id ` set (docs s)"
  shows "status e = ''Pending'' \<and> requester e = a \<and> docs s1 = docs s @ [e]
       \<and> denyRequest s1 a (requested e) = (Done (Inr e), s)
       \<and> e \<notin> set (docs s)
       \<and> getFriendship s a (requested e) = Inr None
       \<and> account_getFriendship s a (requested e) = Inr None
       \<and> (\<exists>e'. friendRequest viewProfile s a handle now' newId'
                  = (Done (Inr e'), s\<lparr>docs := docs s @ [e']\<rparr>)
               \<and> status e' = ''Pending'' \<and> requester e' = a \<and> requested e' = requested e)"
proof -
  from friendRequest_sent[OF sent] obtain info where
    vp: "viewProfile a handle = Inr (Some info)" and allowed: "info_friendRequests info"
    and absent: "account_getFriendship s a (info_id info) = Inr None"
    and up: "down s = None" and fresh: "newId \<notin> doc_id ` set (docs s)"
    and e: "e = \<lparr>doc_id = newId, requester = a, requested = info_id info,
                 status = ''Pending'', dateSent = now, dateAccepted = None\<rparr>"
    and s1: "s1 = s\<lparr>docs := docs s @ [e]\<rparr>"
    by blast
  have b: "requested e = info_id info" and st: "status e = ''Pending''"
    and rq: "requester e = a" and id: "doc_id e = newId"
    using e by simp_all
  have pe: "pending_from_to a (requested e) e"
    using st rq by (simp add: pending_from_to_def)
  have found: "find (pending_from_to a (requested e)) (docs s @ [e]) = Some e"
    using find_append_last[OF single pe] .
  have deny: "denyRequest s1 a (requested e) = (Done (Inr e), s)"
    using found up filter_fresh[OF fresh id]
    by (simp add: denyRequest_def findOne_def remove_doc_def s1)
  have notin: "e \<notin> set (docs s)"
    using fresh id by auto
  have gf: "getFriendship s a (requested e) = Inr None"
    using account_getFriendship_None[OF absent up] up b
    by (simp add: getFriendship_def findOne_def)
  have again: "friendRequest viewProfile s a handle now' newId'
      = (Done (Inr \<lparr>doc_id = newId', requester = a, requested = info_id info,
                    status = ''Pending'', dateSent = now', dateAccepted = None\<rparr>),
         s\<lparr>docs := docs s @ [\<lparr>doc_id = newId', requester = a, requested = info_id info,
                    status = ''Pending'', dateSent = now', dateAccepted = None\<rparr>]\<rparr>)"
    using vp allowed absent up fresh' by (simp add: friendRequest_def save_def)
  show ?thesis
    using st rq s1 deny notin gf absent b again by simp
qed

text \<open>
  C7 (the code at the failing inputs). In \<open>src/lib/friendship.js\<close>: the store holds a
  Pending request \<open>r1\<close> from \<open>a\<close> to \<open>b\<close>; \<open>friendRequest(a, b)\<close> is not refused and stores a
  second one, \<open>r2\<close>; \<open>denyRequest(a, b)\<close> then removes \<open>r1\<close>, the first match, and the
  request that was just created is still stored as Pending. In the older module: after
  \<open>friendRequest(a, b)\<close> stored the only request, \<open>denyRequest(a, b)\<close> throws on the
  undeclared name \<open>Friendship\<close> and the request is still stored.
\<close>

theorem C7_request_survives_deny:
  "friendRequest open_profile (store [pending ''r1'' ''a'' ''b'' 10]) ''a'' ''b@mail'' 20 ''r2''
     = (Done (Inr (pending ''r2'' ''a'' ''b'' 20)),
        store [pending ''r1'' ''a'' ''b'' 10, pending ''r2'' ''a'' ''b'' 20])
   \<and> denyRequest (store [pending ''r1'' ''a'' ''b'' 10, pending ''r2'' ''a'' ''b'' 20]) ''a'' ''b''
     = (Done (Inr (pending ''r1'' ''a'' ''b'' 10)), store [pending ''r2'' ''a'' ''b'' 20])
   \<and> friendRequest open_profile (store []) ''a'' ''b@mail'' 10 ''r1''
     = (Done (Inr (pending ''r1'' ''a'' ''b'' 10)), store [pending ''r1'' ''a'' ''b'' 10])
   \<and> denyRequest_part1 (store [pending ''r1'' ''a'' ''b'' 10]) ''a'' ''b''
     = (Thrown (ReferenceError ''Friendship is not defined''),
        store [pending ''r1'' ''a'' ''b'' 10])"
  by (simp add: friendRequest_def open_profile_def store_def pending_def
      account_getFriendship_def findOne_def populate_def accepted_between_def save_def
      denyRequest_def denyRequest_part1_def remove_doc_def pending_from_to_def)

end
